theory Spec2Isabelle
  imports Main "HOL-Library.Sublist"
begin

section \<open>The code generator of ts-llvm: utilities and node dispatch\<close>

text \<open>
  The development embeds \<^verbatim>\<open>src/utils.ts\<close> (\<^verbatim>\<open>replaceExtension\<close>,
  \<^verbatim>\<open>createLLVMFunction\<close>, \<^verbatim>\<open>getMemberIndex\<close>, \<^verbatim>\<open>isValueType\<close>) and
  \<^verbatim>\<open>src/codegen/generator.ts\<close> (\<^verbatim>\<open>emitLLVM\<close> and the class \<^verbatim>\<open>LLVMGenerator\<close>).
  Exceptions and calls of \<^verbatim>\<open>error\<close> are values of a sum type; the generator's mutable
  members are a record that every operation takes and returns.
\<close>

subsection \<open>Errors\<close>

datatype error =
    Fatal string          \<comment> \<open>\<^verbatim>\<open>error(message)\<close> of the diagnostics module\<close>
  | TypeError string      \<comment> \<open>a JavaScript \<^verbatim>\<open>TypeError\<close> (a member of \<^verbatim>\<open>undefined\<close> is read)\<close>
  | VerifierError string  \<comment> \<open>the exception \<^verbatim>\<open>llvm.verifyModule\<close> throws on a broken module\<close>

text \<open>
  Modelled from the spec: \<^verbatim>\<open>src/diagnostics.ts\<close> is not among the sources. The spec gives
  the channel two severities; \<^verbatim>\<open>error\<close> is the fatal one, which aborts the compilation
  attempt. Its callers write \<^verbatim>\<open>return error(...)\<close> where a value is due, so it never
  returns.
\<close>

definition error :: "string \<Rightarrow> error + 'a" where
  "error message = Inl (Fatal message)"

subsection \<open>File names: \<^verbatim>\<open>replaceExtension\<close>\<close>

text \<open>
  \<^verbatim>\<open>filePath.replace(/\.[^\.\/\\]+$/, "") + extension\<close>.
  The character class of the regular expression excludes the dot, the slash and the
  backslash.
\<close>

definition ext_char :: "char \<Rightarrow> bool" where
  "ext_char c = (c \<noteq> CHR ''.'' \<and> c \<noteq> CHR ''/'' \<and> c \<noteq> CHR 0x5C)"

text \<open>
  The expression matches at the head of \<open>s\<close>: a dot, then one or more characters of the
  class, then the end of the input (there is no \<^verbatim>\<open>m\<close> flag, so \<^verbatim>\<open>$\<close> is the end of the
  string).
\<close>

fun matches_here :: "string \<Rightarrow> bool" where
  "matches_here [] = False"
| "matches_here (c # cs) = (c = CHR ''.'' \<and> cs \<noteq> [] \<and> list_all ext_char cs)"

text \<open>
  \<^verbatim>\<open>String.prototype.replace\<close> with a regular expression that has no \<^verbatim>\<open>g\<close> flag replaces
  the leftmost match. A match runs to the end of the string, so replacing it by the empty
  string keeps what stands before it.
\<close>

fun remove_match :: "string \<Rightarrow> string" where
  "remove_match [] = []"
| "remove_match (c # cs) = (if matches_here (c # cs) then [] else c # remove_match cs)"

definition replaceExtension :: "string \<Rightarrow> string \<Rightarrow> string" where
  "replaceExtension filePath extension = remove_match filePath @ extension"

text \<open>The last segment of a path: what follows its last slash or backslash.\<close>

definition final_segment :: "string \<Rightarrow> string" where
  "final_segment path = rev (takeWhile (\<lambda>c. c \<noteq> CHR ''/'' \<and> c \<noteq> CHR 0x5C) (rev path))"

subsection \<open>Types of the target representation\<close>

text \<open>
  \<^verbatim>\<open>llvm.Type\<close>, as far as the sources inspect it: \<^verbatim>\<open>isDoubleTy()\<close>, \<^verbatim>\<open>isPointerTy()\<close>,
  \<^verbatim>\<open>elementType\<close> of a pointer type, \<^verbatim>\<open>Type.getInt32Ty\<close> and \<^verbatim>\<open>FunctionType.get\<close>.
\<close>

datatype llvm_type =
    VoidTy
  | IntegerTy nat
  | FloatTy
  | DoubleTy
  | PointerTy llvm_type
  | StructTy string
  | FunctionTy llvm_type "llvm_type list"

fun isDoubleTy :: "llvm_type \<Rightarrow> bool" where
  "isDoubleTy DoubleTy = True"
| "isDoubleTy _ = False"

fun isPointerTy :: "llvm_type \<Rightarrow> bool" where
  "isPointerTy (PointerTy _) = True"
| "isPointerTy _ = False"

text \<open>\<^verbatim>\<open>elementType\<close> is a member of pointer types; elsewhere it is \<^verbatim>\<open>undefined\<close>.\<close>

fun elementType :: "llvm_type \<Rightarrow> llvm_type option" where
  "elementType (PointerTy t) = Some t"
| "elementType _ = None"

definition isValueType :: "llvm_type \<Rightarrow> bool" where
  "isValueType type = isDoubleTy type"

subsection \<open>Class members: \<^verbatim>\<open>getMemberIndex\<close>\<close>

text \<open>The members of \<^verbatim>\<open>ts.SyntaxKind\<close> that the sources name; any other kind is
  \<open>OtherKind\<close> with the name \<^verbatim>\<open>ts.SyntaxKind[kind]\<close> gives it.
  \<^verbatim>\<open>ts.SyntaxKind[kind]\<close> is the reverse mapping of the enumeration: where two members have
  the same number it gives the member declared last. The enumeration ends with markers that
  repeat earlier numbers: \<^verbatim>\<open>FirstLiteralToken = NumericLiteral\<close> and, in the versions of
  TypeScript that declare it, \<^verbatim>\<open>FirstStatement = VariableStatement\<close>. So these two kinds
  read as their markers; the other kinds named here have no marker.\<close>

datatype SyntaxKind =
    Block | ExpressionStatement | IfStatement | ReturnStatement | VariableStatement
  | FunctionDeclaration | MethodDeclaration | Constructor | ClassDeclaration
  | ModuleDeclaration | EndOfFileToken | InterfaceDeclaration | PropertyDeclaration
  | BinaryExpression | CallExpression | PropertyAccessExpression | Identifier
  | TrueKeyword | FalseKeyword | NumericLiteral | StringLiteral
  | ObjectLiteralExpression | NewExpression
  | OtherKind string

fun SyntaxKind_name :: "SyntaxKind \<Rightarrow> string" where
  "SyntaxKind_name Block = ''Block''"
| "SyntaxKind_name ExpressionStatement = ''ExpressionStatement''"
| "SyntaxKind_name IfStatement = ''IfStatement''"
| "SyntaxKind_name ReturnStatement = ''ReturnStatement''"
| "SyntaxKind_name VariableStatement = ''FirstStatement''"
| "SyntaxKind_name FunctionDeclaration = ''FunctionDeclaration''"
| "SyntaxKind_name MethodDeclaration = ''MethodDeclaration''"
| "SyntaxKind_name Constructor = ''Constructor''"
| "SyntaxKind_name ClassDeclaration = ''ClassDeclaration''"
| "SyntaxKind_name ModuleDeclaration = ''ModuleDeclaration''"
| "SyntaxKind_name EndOfFileToken = ''EndOfFileToken''"
| "SyntaxKind_name InterfaceDeclaration = ''InterfaceDeclaration''"
| "SyntaxKind_name PropertyDeclaration = ''PropertyDeclaration''"
| "SyntaxKind_name BinaryExpression = ''BinaryExpression''"
| "SyntaxKind_name CallExpression = ''CallExpression''"
| "SyntaxKind_name PropertyAccessExpression = ''PropertyAccessExpression''"
| "SyntaxKind_name Identifier = ''Identifier''"
| "SyntaxKind_name TrueKeyword = ''TrueKeyword''"
| "SyntaxKind_name FalseKeyword = ''FalseKeyword''"
| "SyntaxKind_name NumericLiteral = ''FirstLiteralToken''"
| "SyntaxKind_name StringLiteral = ''StringLiteral''"
| "SyntaxKind_name ObjectLiteralExpression = ''ObjectLiteralExpression''"
| "SyntaxKind_name NewExpression = ''NewExpression''"
| "SyntaxKind_name (OtherKind n) = n"

text \<open>A member of a class body: its kind and the text of its name
  (\<^verbatim>\<open>member.name.getText()\<close>, which the sources read of property declarations only).\<close>

datatype class_element = ClassElement (member_kind: SyntaxKind) (member_name: string)

text \<open>A class declaration: its name, absent for an anonymous class, and its members in
  the order of the class body.\<close>

record class_declaration =
  class_name :: "string option"
  members :: "class_element list"

definition isPropertyDeclaration :: "class_element \<Rightarrow> bool" where
  "isPropertyDeclaration member = (member_kind member = PropertyDeclaration)"

text \<open>\<^verbatim>\<open>Array.prototype.findIndex\<close>: the index of the first element that satisfies the
  predicate, \<open>-1\<close> when there is none.\<close>

fun findIndex :: "('a \<Rightarrow> bool) \<Rightarrow> 'a list \<Rightarrow> int" where
  "findIndex p [] = - 1"
| "findIndex p (x # xs) =
     (if p x then 0 else (let i = findIndex p xs in if i < 0 then - 1 else i + 1))"

definition quoted :: "string \<Rightarrow> string" where
  "quoted s = CHR 0x27 # s @ [CHR 0x27]"

text \<open>In the error branch \<^verbatim>\<open>declaration.name!.text\<close> reads the name of the class; the
  \<^verbatim>\<open>!\<close> is erased by the compiler, so an absent name is a \<^verbatim>\<open>TypeError\<close> there.\<close>

definition getMemberIndex :: "string \<Rightarrow> class_declaration \<Rightarrow> error + int" where
  "getMemberIndex name declaration =
     (let index = findIndex (\<lambda>member. isPropertyDeclaration member \<and> member_name member = name)
                    (members declaration)
      in if index < 0 then
           (case class_name declaration of
              None \<Rightarrow> Inl (TypeError ''Cannot read property text of undefined'')
            | Some text \<Rightarrow> error (''Type '' @ quoted text @ '' has no field '' @ quoted name))
         else Inr index)"

text \<open>The class layout in the words of the specification: the names of the
  property-kind members, in the order of the class body, and the position of a name in
  that list.\<close>

definition class_layout :: "class_declaration \<Rightarrow> string list" where
  "class_layout declaration = map member_name (filter isPropertyDeclaration (members declaration))"

definition layout_index :: "string \<Rightarrow> class_declaration \<Rightarrow> int" where
  "layout_index name declaration = findIndex (\<lambda>field. field = name) (class_layout declaration)"

subsection \<open>Values, blocks, functions and the module\<close>

text \<open>
  \<^verbatim>\<open>llvm.Value\<close>: the values the sources construct (\<^verbatim>\<open>Constant.getNullValue\<close>,
  \<^verbatim>\<open>createLoad\<close>, \<^verbatim>\<open>createRet\<close>) or test for (\<^verbatim>\<open>instanceof llvm.AllocaInst\<close>, with the
  allocated type); any other value is \<open>OtherValue\<close> with its text and its type.
\<close>

datatype llvm_value =
    ConstantNull llvm_type
  | AllocaInst llvm_type
  | LoadInst llvm_value
  | ReturnInst llvm_value
  | OtherValue string llvm_type

text \<open>\<^verbatim>\<open>value.type\<close>. An alloca is a pointer to the allocated type; a load has the element
  type of its operand (the sources load pointers only; the type of a load of anything else
  is left as \<open>VoidTy\<close>).\<close>

fun value_type :: "llvm_value \<Rightarrow> llvm_type" where
  "value_type (ConstantNull t) = t"
| "value_type (AllocaInst t) = PointerTy t"
| "value_type (LoadInst v) = (case elementType (value_type v) of Some t \<Rightarrow> t | None \<Rightarrow> VoidTy)"
| "value_type (ReturnInst v) = VoidTy"
| "value_type (OtherValue text t) = t"

fun isAllocaInst :: "llvm_value \<Rightarrow> bool" where
  "isAllocaInst (AllocaInst t) = True"
| "isAllocaInst _ = False"

datatype LinkageTypes = ExternalLinkage | InternalLinkage | PrivateLinkage

record basic_block =
  block_name :: string
  instructions :: "llvm_value list"

record llvm_function =
  function_name :: string
  function_type :: llvm_type
  function_linkage :: LinkageTypes
  getBasicBlocks :: "basic_block list"

record llvm_module =
  module_id :: string
  getFunctions :: "llvm_function list"

text \<open>
  The sources hold functions and blocks by reference. Here a function is held by its
  position in the module and a block by the position of its function and its own position
  there; the sources append functions and blocks and remove none.
  \<^verbatim>\<open>Function.create\<close> appends a function without blocks to the module. (The library renames
  a function whose name the module already has; \<^verbatim>\<open>emitLLVM\<close> creates its function in an
  empty module.)
\<close>

definition Function_create :: "llvm_type \<Rightarrow> LinkageTypes \<Rightarrow> string \<Rightarrow> llvm_module \<Rightarrow> nat \<times> llvm_module" where
  "Function_create type linkage name m =
     (length (getFunctions m),
      m\<lparr>getFunctions := getFunctions m @
         [\<lparr>function_name = name, function_type = type, function_linkage = linkage, getBasicBlocks = []\<rparr>]\<rparr>)"

text \<open>\<^verbatim>\<open>createLLVMFunction\<close>: the function type is never variadic
  (\<^verbatim>\<open>FunctionType.get(returnType, parameterTypes, false)\<close>) and the linkage is external.\<close>

definition createLLVMFunction :: "llvm_type \<Rightarrow> llvm_type list \<Rightarrow> string \<Rightarrow> llvm_module \<Rightarrow> nat \<times> llvm_module" where
  "createLLVMFunction returnType parameterTypes name m =
     (let type = FunctionTy returnType parameterTypes;
          linkage = ExternalLinkage
      in Function_create type linkage name m)"

text \<open>\<^verbatim>\<open>BasicBlock.create(context, name, parent)\<close> appends an empty block to the function.\<close>

definition BasicBlock_create :: "string \<Rightarrow> nat \<Rightarrow> llvm_module \<Rightarrow> llvm_module" where
  "BasicBlock_create name parent m =
     m\<lparr>getFunctions := (getFunctions m)[parent :=
        (getFunctions m ! parent)\<lparr>getBasicBlocks := getBasicBlocks (getFunctions m ! parent) @
           [\<lparr>block_name = name, instructions = []\<rparr>]\<rparr>]\<rparr>"

text \<open>\<^verbatim>\<open>module.getFunction(name)\<close>: the function of that name, \<^verbatim>\<open>undefined\<close> when the module
  has none.\<close>

definition getFunction :: "string \<Rightarrow> llvm_module \<Rightarrow> nat option" where
  "getFunction name m =
     (let i = findIndex (\<lambda>f. function_name f = name) (getFunctions m)
      in if i < 0 then None else Some (nat i))"

text \<open>\<^verbatim>\<open>R.last(f.getBasicBlocks())\<close>: the last block of the function, \<^verbatim>\<open>undefined\<close> when it has
  no block.\<close>

definition last_block :: "nat \<Rightarrow> llvm_module \<Rightarrow> (nat \<times> nat) option" where
  "last_block f m =
     (if f < length (getFunctions m) then
        (let blocks = getBasicBlocks (getFunctions m ! f)
         in if blocks = [] then None else Some (f, length blocks - 1))
      else None)"

text \<open>The instruction is appended to the block at position \<open>(f, b)\<close>.\<close>

definition append_instruction :: "nat \<times> nat \<Rightarrow> llvm_value \<Rightarrow> llvm_module \<Rightarrow> llvm_module" where
  "append_instruction block v m =
     (case block of (f, b) \<Rightarrow>
        m\<lparr>getFunctions := (getFunctions m)[f :=
           (getFunctions m ! f)\<lparr>getBasicBlocks := (getBasicBlocks (getFunctions m ! f))[b :=
              (getBasicBlocks (getFunctions m ! f) ! b)\<lparr>instructions :=
                 instructions (getBasicBlocks (getFunctions m ! f) ! b) @ [v]\<rparr>]\<rparr>]\<rparr>)"

subsection \<open>The syntax tree\<close>

text \<open>A node of the checked program tree: its kind, its source text and its children, in
  the order \<^verbatim>\<open>forEachChild\<close> visits them.\<close>

datatype node = Node (kind: SyntaxKind) (getText: string) (children: "node list")

datatype program = Program (getSourceFiles: "node list")

text \<open>Scopes are compared by reference; \<open>GlobalScope\<close> is the one object
  \<^verbatim>\<open>symbolTable.globalScope\<close>.\<close>

datatype scope = GlobalScope | InnerScope nat

subsection \<open>The generator\<close>

text \<open>
  The members of \<^verbatim>\<open>LLVMGenerator\<close> that change: the module, the builder (its insertion
  block, if it has one) and the symbol table, whose class is not among the sources and is a
  type parameter. The lines \<^verbatim>\<open>warn\<close> writes are kept in \<open>notices\<close>.
\<close>

record 'sym gen_state =
  module :: llvm_module
  builder :: "(nat \<times> nat) option"
  symbolTable :: 'sym
  notices :: "string list"

text \<open>
  Modelled from the spec: \<^verbatim>\<open>warn\<close> of \<^verbatim>\<open>src/diagnostics.ts\<close>, which is not among the
  sources. It is the non-fatal severity of the diagnostics channel: the notice is
  recorded and compilation continues.
\<close>

definition warn :: "string \<Rightarrow> 'sym gen_state \<Rightarrow> 'sym gen_state" where
  "warn message s = s\<lparr>notices := notices s @ [message]\<rparr>"

definition setInsertionPoint :: "nat \<times> nat \<Rightarrow> 'sym gen_state \<Rightarrow> 'sym gen_state" where
  "setInsertionPoint block s = s\<lparr>builder := Some block\<rparr>"

text \<open>The builder appends an instruction it creates to its insertion block; a builder without
  insertion block creates the instruction and inserts it nowhere.\<close>

definition insert_instruction :: "llvm_value \<Rightarrow> 'sym gen_state \<Rightarrow> 'sym gen_state" where
  "insert_instruction v s =
     (case builder s of
        None \<Rightarrow> s
      | Some block \<Rightarrow> s\<lparr>module := append_instruction block v (module s)\<rparr>)"

definition createRet :: "llvm_value \<Rightarrow> 'sym gen_state \<Rightarrow> llvm_value \<times> 'sym gen_state" where
  "createRet v s = (ReturnInst v, insert_instruction (ReturnInst v) s)"

definition createLoad :: "llvm_value \<Rightarrow> 'sym gen_state \<Rightarrow> llvm_value \<times> 'sym gen_state" where
  "createLoad v s = (LoadInst v, insert_instruction (LoadInst v) s)"

definition createLoadIfAllocaOrPointerToValueType ::
  "llvm_value \<Rightarrow> 'sym gen_state \<Rightarrow> llvm_value \<times> 'sym gen_state" where
  "createLoadIfAllocaOrPointerToValueType v s =
     (if isAllocaInst v \<or>
         (isPointerTy (value_type v) \<and>
          (case elementType (value_type v) of Some t \<Rightarrow> isValueType t | None \<Rightarrow> False))
      then createLoad v s
      else (v, s))"

text \<open>
  The emitters of \<^verbatim>\<open>src/codegen/declaration.ts\<close>, \<^verbatim>\<open>statement.ts\<close> and \<^verbatim>\<open>expression.ts\<close>
  and the constructor of the symbol table are not among the sources: they are parameters.
  An emitter takes the node (and the parent scope, where the source passes it) and the
  generator; it returns the generator it leaves, or the error it raises.
\<close>

type_synonym 'sym emit = "'sym gen_state \<Rightarrow> error + 'sym gen_state"
type_synonym 'sym emit_value = "'sym gen_state \<Rightarrow> error + llvm_value \<times> 'sym gen_state"

record 'sym emitters =
  new_SymbolTable :: 'sym
  emitFunctionDeclaration :: "node \<Rightarrow> scope \<Rightarrow> 'sym emit"
  emitClassDeclaration :: "node \<Rightarrow> scope \<Rightarrow> 'sym emit"
  emitModuleDeclaration :: "node \<Rightarrow> scope \<Rightarrow> 'sym emit"
  emitBlock :: "node \<Rightarrow> 'sym emit"
  emitExpressionStatement :: "node \<Rightarrow> 'sym emit"
  emitIfStatement :: "node \<Rightarrow> scope \<Rightarrow> 'sym emit"
  emitReturnStatement :: "node \<Rightarrow> 'sym emit"
  emitVariableStatement :: "node \<Rightarrow> scope \<Rightarrow> 'sym emit"
  emitBinaryExpression :: "node \<Rightarrow> 'sym emit_value"
  emitCallExpression :: "node \<Rightarrow> 'sym emit_value"
  emitPropertyAccessExpression :: "node \<Rightarrow> 'sym emit_value"
  emitIdentifier :: "node \<Rightarrow> 'sym emit_value"
  emitBooleanLiteral :: "node \<Rightarrow> 'sym emit_value"
  emitNumericLiteral :: "node \<Rightarrow> 'sym emit_value"
  emitStringLiteral :: "node \<Rightarrow> 'sym emit_value"
  emitObjectLiteralExpression :: "node \<Rightarrow> 'sym emit_value"
  emitNewExpression :: "node \<Rightarrow> 'sym emit_value"

text \<open>The kinds of the first \<^verbatim>\<open>switch\<close> of \<^verbatim>\<open>emitNode\<close>.\<close>

fun statement_kind :: "SyntaxKind \<Rightarrow> bool" where
  "statement_kind Block = True"
| "statement_kind ExpressionStatement = True"
| "statement_kind IfStatement = True"
| "statement_kind ReturnStatement = True"
| "statement_kind VariableStatement = True"
| "statement_kind _ = False"

text \<open>
  The first \<^verbatim>\<open>switch\<close>: for a node of a statement kind whose parent scope is the global scope,
  \<^verbatim>\<open>builder.setInsertionPoint(R.last(module.getFunction("main").getBasicBlocks())!)\<close>.
  Without a function \<^verbatim>\<open>main\<close> the call of \<^verbatim>\<open>getBasicBlocks\<close> is a \<^verbatim>\<open>TypeError\<close>; so is, in the
  binding, an insertion point that is \<^verbatim>\<open>undefined\<close>.
\<close>

definition position_in_main :: "node \<Rightarrow> scope \<Rightarrow> 'sym emit" where
  "position_in_main node parentScope s =
     (if statement_kind (kind node) then
        (if parentScope = GlobalScope then
           (case getFunction ''main'' (module s) of
              None \<Rightarrow> Inl (TypeError ''Cannot read property getBasicBlocks of undefined'')
            | Some main \<Rightarrow>
                (case last_block main (module s) of
                   None \<Rightarrow> Inl (TypeError ''setInsertionPoint: no basic block'')
                 | Some block \<Rightarrow> Inr (setInsertionPoint block s)))
         else Inr s)
      else Inr s)"

text \<open>The second \<^verbatim>\<open>switch\<close>, in the order of its cases.\<close>

definition dispatch :: "'sym emitters \<Rightarrow> node \<Rightarrow> scope \<Rightarrow> 'sym emit" where
  "dispatch E node parentScope s =
     (case kind node of
        FunctionDeclaration \<Rightarrow> emitFunctionDeclaration E node parentScope s
      | MethodDeclaration \<Rightarrow> emitFunctionDeclaration E node parentScope s
      | Constructor \<Rightarrow> emitFunctionDeclaration E node parentScope s
      | ClassDeclaration \<Rightarrow> emitClassDeclaration E node parentScope s
      | ModuleDeclaration \<Rightarrow> emitModuleDeclaration E node parentScope s
      | Block \<Rightarrow> emitBlock E node s
      | ExpressionStatement \<Rightarrow> emitExpressionStatement E node s
      | IfStatement \<Rightarrow> emitIfStatement E node parentScope s
      | ReturnStatement \<Rightarrow> emitReturnStatement E node s
      | VariableStatement \<Rightarrow> emitVariableStatement E node parentScope s
      | EndOfFileToken \<Rightarrow> Inr s
      | InterfaceDeclaration \<Rightarrow> Inr s
      | _ \<Rightarrow> Inr (warn (''Unhandled ts.Node '' @ quoted (SyntaxKind_name (kind node)) @ '': '' @
                        getText node) s))"

definition emitNode :: "'sym emitters \<Rightarrow> node \<Rightarrow> scope \<Rightarrow> 'sym emit" where
  "emitNode E node parentScope s =
     (case position_in_main node parentScope s of
        Inl e \<Rightarrow> Inl e
      | Inr s' \<Rightarrow> dispatch E node parentScope s')"

text \<open>A loop over a list whose body may raise: the first error ends it.\<close>

fun forEach :: "('a \<Rightarrow> 's \<Rightarrow> error + 's) \<Rightarrow> 'a list \<Rightarrow> 's \<Rightarrow> error + 's" where
  "forEach body [] s = Inr s"
| "forEach body (x # xs) s =
     (case body x s of Inl e \<Rightarrow> Inl e | Inr s' \<Rightarrow> forEach body xs s')"

definition emitSourceFile :: "'sym emitters \<Rightarrow> node \<Rightarrow> 'sym emit" where
  "emitSourceFile E sourceFile s =
     forEach (\<lambda>node. emitNode E node GlobalScope) (children sourceFile) s"

definition emitExpression :: "'sym emitters \<Rightarrow> node \<Rightarrow> 'sym emit_value" where
  "emitExpression E expression s =
     (case kind expression of
        BinaryExpression \<Rightarrow> emitBinaryExpression E expression s
      | CallExpression \<Rightarrow> emitCallExpression E expression s
      | PropertyAccessExpression \<Rightarrow> emitPropertyAccessExpression E expression s
      | Identifier \<Rightarrow> emitIdentifier E expression s
      | TrueKeyword \<Rightarrow> emitBooleanLiteral E expression s
      | FalseKeyword \<Rightarrow> emitBooleanLiteral E expression s
      | NumericLiteral \<Rightarrow> emitNumericLiteral E expression s
      | StringLiteral \<Rightarrow> emitStringLiteral E expression s
      | ObjectLiteralExpression \<Rightarrow> emitObjectLiteralExpression E expression s
      | NewExpression \<Rightarrow> emitNewExpression E expression s
      | _ \<Rightarrow> error (''Unhandled ts.Expression '' @ quoted (SyntaxKind_name (kind expression))))"

text \<open>
  \<^verbatim>\<open>emitLLVM\<close>. The generator is constructed on the new module before the entry function
  is created in it; the generator holds the module by reference, so the loop over the source
  files starts from the module with \<^verbatim>\<open>main\<close> and its block \<^verbatim>\<open>entry\<close>, with a builder that
  has no insertion block yet. \<open>finish_main\<close> is the part after the loop: the insertion
  point is set to the last block of \<^verbatim>\<open>main\<close> (the function the driver created, held by
  reference), the return of the null value of the return type is created, the module is
  verified and returned. \<^verbatim>\<open>llvm.verifyModule\<close> belongs to the library and is a parameter:
  it gives the message of the exception it throws on a broken module, and nothing on a
  module that passes.
\<close>

definition new_generator :: "'sym emitters \<Rightarrow> llvm_module \<Rightarrow> 'sym gen_state" where
  "new_generator E m = \<lparr>module = m, builder = None, symbolTable = new_SymbolTable E, notices = []\<rparr>"

definition finish_main :: "(llvm_module \<Rightarrow> string option) \<Rightarrow> nat \<Rightarrow> 'sym gen_state \<Rightarrow> error + llvm_module" where
  "finish_main verifyModule main s =
     (case last_block main (module s) of
        None \<Rightarrow> Inl (TypeError ''setInsertionPoint: no basic block'')
      | Some block \<Rightarrow>
          (let s' = snd (createRet (ConstantNull (IntegerTy 32)) (setInsertionPoint block s))
           in case verifyModule (module s') of
                Some message \<Rightarrow> Inl (VerifierError message)
              | None \<Rightarrow> Inr (module s')))"

definition emitLLVM :: "(llvm_module \<Rightarrow> string option) \<Rightarrow> 'sym emitters \<Rightarrow> program \<Rightarrow> error + llvm_module" where
  "emitLLVM verifyModule E program =
     (let mainReturnType = IntegerTy 32;
          (main, m) = createLLVMFunction mainReturnType [] ''main'' \<lparr>module_id = ''main'', getFunctions = []\<rparr>;
          generator = new_generator E (BasicBlock_create ''entry'' main m)
      in case forEach (emitSourceFile E) (getSourceFiles program) generator of
           Inl e \<Rightarrow> Inl e
         | Inr s \<Rightarrow> finish_main verifyModule main s)"

subsection \<open>Notions the properties are stated with\<close>

text \<open>An address of a value-typed location: a value whose type is a pointer to a type that
  \<^verbatim>\<open>isValueType\<close> accepts. An address of a reference-typed location: a value whose type is
  a pointer to any other type.\<close>

definition address_of_value_type :: "llvm_value \<Rightarrow> bool" where
  "address_of_value_type v =
     (case elementType (value_type v) of Some t \<Rightarrow> isValueType t | None \<Rightarrow> False)"

definition address_of_reference_type :: "llvm_value \<Rightarrow> bool" where
  "address_of_reference_type v =
     (case elementType (value_type v) of Some t \<Rightarrow> \<not> isValueType t | None \<Rightarrow> False)"

text \<open>The kinds for which the second \<^verbatim>\<open>switch\<close> of \<^verbatim>\<open>emitNode\<close> calls an emitter, the two it
  passes over, and the kinds for which \<^verbatim>\<open>emitExpression\<close> calls an emitter.\<close>

definition emitted_kind :: "SyntaxKind \<Rightarrow> bool" where
  "emitted_kind k = (k \<in> {FunctionDeclaration, MethodDeclaration, Constructor, ClassDeclaration,
     ModuleDeclaration, Block, ExpressionStatement, IfStatement, ReturnStatement, VariableStatement})"

definition passed_over_kind :: "SyntaxKind \<Rightarrow> bool" where
  "passed_over_kind k = (k = EndOfFileToken \<or> k = InterfaceDeclaration)"

definition expression_kind :: "SyntaxKind \<Rightarrow> bool" where
  "expression_kind k = (k \<in> {BinaryExpression, CallExpression, PropertyAccessExpression, Identifier,
     TrueKeyword, FalseKeyword, NumericLiteral, StringLiteral, ObjectLiteralExpression, NewExpression})"

definition unhandled_node_notice :: "node \<Rightarrow> string" where
  "unhandled_node_notice node =
     ''Unhandled ts.Node '' @ quoted (SyntaxKind_name (kind node)) @ '': '' @ getText node"


definition main_body :: "llvm_module \<Rightarrow> llvm_value list" where
  "main_body m = concat (map instructions (getBasicBlocks (getFunctions m ! 0)))"










text \<open>An emitter that changes no function but the one that holds the insertion block.\<close>

definition emits_at_builder :: "'sym emit \<Rightarrow> bool" where
  "emits_at_builder e = (\<forall>s s' f b g. builder s = Some (f, b) \<longrightarrow> e s = Inr s' \<longrightarrow>
     g \<noteq> f \<longrightarrow> g < length (getFunctions (module s)) \<longrightarrow>
     getFunctions (module s') ! g = getFunctions (module s) ! g)"

definition statements_emit_at_builder :: "'sym emitters \<Rightarrow> bool" where
  "statements_emit_at_builder E = (\<forall>node parentScope.
     (kind node = Block \<longrightarrow> emits_at_builder (emitBlock E node)) \<and>
     (kind node = ExpressionStatement \<longrightarrow> emits_at_builder (emitExpressionStatement E node)) \<and>
     (kind node = IfStatement \<longrightarrow> emits_at_builder (emitIfStatement E node parentScope)) \<and>
     (kind node = ReturnStatement \<longrightarrow> emits_at_builder (emitReturnStatement E node)) \<and>
     (kind node = VariableStatement \<longrightarrow>
        emits_at_builder (emitVariableStatement E node parentScope)))"

subsection \<open>Emitters and a verifier to run the driver with\<close>

text \<open>
  Small emitters in the place of the absent ones: a statement appends one instruction that
  carries its text (a \<^verbatim>\<open>return\<close> appends a return instruction) at the insertion block; a
  declaration creates a function of its own with one block and a return, and leaves the
  builder there; an expression gives a value that carries its text.
\<close>

definition example_statement :: "node \<Rightarrow> unit emit" where
  "example_statement node s = Inr (insert_instruction (OtherValue (getText node) VoidTy) s)"

definition example_return :: "node \<Rightarrow> unit emit" where
  "example_return node s = Inr (snd (createRet (ConstantNull (IntegerTy 32)) s))"

definition example_declaration :: "node \<Rightarrow> scope \<Rightarrow> unit emit" where
  "example_declaration node parentScope s =
     (let (f, m) = createLLVMFunction VoidTy [] (getText node) (module s);
          s' = setInsertionPoint (f, 0) (s\<lparr>module := BasicBlock_create ''entry'' f m\<rparr>)
      in Inr (snd (createRet (ConstantNull VoidTy) s')))"

definition example_value :: "node \<Rightarrow> unit emit_value" where
  "example_value node s = Inr (OtherValue (getText node) DoubleTy, s)"

definition example_emitters :: "unit emitters" where
  "example_emitters =
     \<lparr>new_SymbolTable = (),
      emitFunctionDeclaration = example_declaration,
      emitClassDeclaration = example_declaration,
      emitModuleDeclaration = example_declaration,
      emitBlock = example_statement,
      emitExpressionStatement = example_statement,
      emitIfStatement = (\<lambda>node parentScope. example_statement node),
      emitReturnStatement = example_return,
      emitVariableStatement = (\<lambda>node parentScope. example_statement node),
      emitBinaryExpression = example_value,
      emitCallExpression = example_value,
      emitPropertyAccessExpression = example_value,
      emitIdentifier = example_value,
      emitBooleanLiteral = example_value,
      emitNumericLiteral = example_value,
      emitStringLiteral = example_value,
      emitObjectLiteralExpression = example_value,
      emitNewExpression = example_value\<rparr>"

text \<open>A verifier for the structural rule that every block has exactly one terminator, at
  its end.\<close>

fun isTerminator :: "llvm_value \<Rightarrow> bool" where
  "isTerminator (ReturnInst v) = True"
| "isTerminator _ = False"

definition one_terminator :: "basic_block \<Rightarrow> bool" where
  "one_terminator b = (instructions b \<noteq> [] \<and> isTerminator (last (instructions b)) \<and>
     length (filter isTerminator (instructions b)) = 1)"

definition example_verifyModule :: "llvm_module \<Rightarrow> string option" where
  "example_verifyModule m =
     (if list_all (\<lambda>f. list_all one_terminator (getBasicBlocks f)) (getFunctions m) then None
      else Some ''Verifying module failed'')"

text \<open>Two source units: \<^verbatim>\<open>let a = 1;\<close> and a function declaration, then \<^verbatim>\<open>let b = 2;\<close>.\<close>

definition unit_A :: node where
  "unit_A = Node (OtherKind ''SourceFile'') ''let a = 1; function f() {}''
     [Node VariableStatement ''let a = 1;'' [],
      Node FunctionDeclaration ''f'' [],
      Node EndOfFileToken [] []]"

definition unit_B :: node where
  "unit_B = Node (OtherKind ''SourceFile'') ''let b = 2;''
     [Node VariableStatement ''let b = 2;'' [], Node EndOfFileToken [] []]"

definition empty_generator :: "unit gen_state" where
  "empty_generator = new_generator example_emitters \<lparr>module_id = ''main'', getFunctions = []\<rparr>"

text \<open>A class with a method between its two fields, and an expression of a kind that
  \<^verbatim>\<open>emitExpression\<close> has no case for.\<close>

definition Point_class :: class_declaration where
  "Point_class = \<lparr>class_name = Some ''Point'',
     members = [ClassElement PropertyDeclaration ''x'',
                ClassElement MethodDeclaration ''norm'',
                ClassElement PropertyDeclaration ''y'']\<rparr>"

definition negation_expression :: node where
  "negation_expression = Node (OtherKind ''PrefixUnaryExpression'') ''-x'' []"

definition unit_with_loop :: node where
  "unit_with_loop = Node (OtherKind ''SourceFile'') ''while (c) {} let b = 2;''
     [Node (OtherKind ''WhileStatement'') ''while (c) {}'' [],
      Node VariableStatement ''let b = 2;'' [],
      Node EndOfFileToken [] []]"

text \<open>The generator as \<^verbatim>\<open>emitLLVM\<close> sets it up, with the builder in the entry block.\<close>

definition generator_in_main :: "unit gen_state" where
  "generator_in_main =
     (let (main, m) = createLLVMFunction (IntegerTy 32) [] ''main'' \<lparr>module_id = ''main'', getFunctions = []\<rparr>
      in setInsertionPoint (main, 0) (new_generator example_emitters (BasicBlock_create ''entry'' main m)))"

text \<open>A source unit with a \<^verbatim>\<open>return\<close> at its top level, and the function the emitters above
  make of a list of instructions.\<close>

definition unit_with_return :: node where
  "unit_with_return = Node (OtherKind ''SourceFile'') ''return;''
     [Node ReturnStatement ''return;'' [], Node EndOfFileToken [] []]"

definition one_block_function :: "string \<Rightarrow> llvm_type \<Rightarrow> llvm_value list \<Rightarrow> llvm_function" where
  "one_block_function name returnType body =
     \<lparr>function_name = name, function_type = FunctionTy returnType [],
      function_linkage = ExternalLinkage,
      getBasicBlocks = [\<lparr>block_name = ''entry'', instructions = body\<rparr>]\<rparr>"

text \<open>The generator as the declaration emitter above leaves it after the function \<open>f\<close>:
  the builder stands in the block of \<open>f\<close>.\<close>

definition generator_in_f :: "unit gen_state" where
  "generator_in_f =
     \<lparr>module = \<lparr>module_id = ''main'',
        getFunctions = [one_block_function ''main'' (IntegerTy 32) [],
                        one_block_function ''f'' VoidTy [ReturnInst (ConstantNull VoidTy)]]\<rparr>,
      builder = Some (1, 0), symbolTable = (), notices = []\<rparr>"





section \<open>Properties\<close>

subsection \<open>Auxiliary facts about \<open>replaceExtension\<close> and \<open>findIndex\<close>\<close>

lemma remove_match_prefix: "\<exists>r. path = remove_match path @ r \<and> (r = [] \<or> matches_here r)"
proof (induction path)
  case Nil
  then show ?case by simp
next
  case (Cons c cs)
  show ?case
  proof (cases "matches_here (c # cs)")
    case True
    then show ?thesis by (intro exI[of _ "c # cs"]) simp
  next
    case False
    with Cons show ?thesis by auto
  qed
qed

lemma remove_match_ext:
  "e \<noteq> [] \<Longrightarrow> list_all ext_char e \<Longrightarrow> remove_match (p @ CHR ''.'' # e) = p"
  by (induction p) (auto simp: ext_char_def)

lemma remove_match_none:
  "(\<And>p e. path = p @ CHR ''.'' # e \<Longrightarrow> e = [] \<or> \<not> list_all ext_char e) \<Longrightarrow> remove_match path = path"
proof (induction path)
  case Nil
  then show ?case by simp
next
  case (Cons c cs)
  have nm: "\<not> matches_here (c # cs)"
    using Cons.prems[of "[]" cs] by auto
  have "remove_match cs = cs"
  proof (rule Cons.IH)
    fix p e assume "cs = p @ CHR ''.'' # e"
    then have "c # cs = (c # p) @ CHR ''.'' # e" by simp
    from Cons.prems[OF this] show "e = [] \<or> \<not> list_all ext_char e" .
  qed
  with nm show ?case by simp
qed

lemma findIndex_ge: "- 1 \<le> findIndex p xs"
  by (induction xs) (auto simp: Let_def)

lemma findIndex_neg_iff: "findIndex p xs < 0 \<longleftrightarrow> (\<forall>x \<in> set xs. \<not> p x)"
  using findIndex_ge[of p]
  by (induction xs) (auto simp: Let_def)

lemma findIndex_miss: "findIndex p xs < 0 \<Longrightarrow> findIndex p xs = - 1"
  using findIndex_ge[of p xs] by simp

lemma findIndex_Cons_miss:
  "\<not> p x \<Longrightarrow> 0 \<le> findIndex p (x # xs) \<Longrightarrow>
     0 \<le> findIndex p xs \<and> findIndex p (x # xs) = findIndex p xs + 1"
  by (simp add: Let_def split: if_splits)

lemma findIndex_hit:
  "0 \<le> findIndex p xs \<Longrightarrow>
     nat (findIndex p xs) < length xs \<and> p (xs ! nat (findIndex p xs)) \<and>
     (\<forall>j < nat (findIndex p xs). \<not> p (xs ! j))"
proof (induction xs)
  case Nil
  then show ?case by simp
next
  case (Cons x xs)
  show ?case
  proof (cases "p x")
    case True
    then show ?thesis by simp
  next
    case False
    from findIndex_Cons_miss[OF False Cons.prems]
    have nn: "0 \<le> findIndex p xs" and eq: "findIndex p (x # xs) = findIndex p xs + 1"
      by simp_all
    have n: "nat (findIndex p xs + 1) = Suc (nat (findIndex p xs))"
      using nn by simp
    from Cons.IH[OF nn] False show ?thesis
      unfolding eq n by (auto simp: less_Suc_eq_0_disj)
  qed
qed

lemma findIndex_layout:
  "0 \<le> findIndex (\<lambda>m. q m \<and> f m = name) xs \<Longrightarrow>
   findIndex (\<lambda>m. q m \<and> f m = name) xs =
     findIndex (\<lambda>field. field = name) (map f (filter q xs)) +
     int (length (filter (\<lambda>m. \<not> q m) (take (nat (findIndex (\<lambda>m. q m \<and> f m = name) xs)) xs)))"
proof (induction xs)
  case Nil
  then show ?case by simp
next
  case (Cons x xs)
  let ?P = "\<lambda>m. q m \<and> f m = name"
  show ?case
  proof (cases "?P x")
    case True
    then show ?thesis by simp
  next
    case False
    from findIndex_Cons_miss[of ?P, OF False Cons.prems]
    have nn: "0 \<le> findIndex ?P xs" and eq: "findIndex ?P (x # xs) = findIndex ?P xs + 1"
      by simp_all
    have n: "nat (findIndex ?P xs + 1) = Suc (nat (findIndex ?P xs))"
      using nn by simp
    have "\<exists>m \<in> set xs. ?P m"
      using nn findIndex_neg_iff[of ?P xs] by auto
    then have "\<not> (\<forall>field \<in> set (map f (filter q xs)). field \<noteq> name)"
      by auto
    then have lay: "0 \<le> findIndex (\<lambda>field. field = name) (map f (filter q xs))"
      using findIndex_neg_iff[of "\<lambda>field. field = name" "map f (filter q xs)"] by auto
    from Cons.IH[OF nn] False lay show ?thesis
      unfolding eq n by (auto simp: Let_def)
  qed
qed


lemma matches_here_no_separator:
  "matches_here r \<Longrightarrow> CHR ''/'' \<notin> set r \<and> CHR 0x5C \<notin> set r"
  by (cases r) (auto simp: list_all_iff ext_char_def)

lemma final_segment_has_dot:
  assumes "list_all ext_char e"
  shows "CHR ''.'' \<in> set (final_segment (p @ CHR ''.'' # e))"
proof -
  have sep: "\<forall>c \<in> set (rev e). c \<noteq> CHR ''/'' \<and> c \<noteq> CHR 0x5C"
    using assms by (auto simp: list_all_iff ext_char_def)
  have "takeWhile (\<lambda>c. c \<noteq> CHR ''/'' \<and> c \<noteq> CHR 0x5C) (rev e @ CHR ''.'' # rev p) =
      rev e @ takeWhile (\<lambda>c. c \<noteq> CHR ''/'' \<and> c \<noteq> CHR 0x5C) (CHR ''.'' # rev p)"
    by (rule takeWhile_append2) (use sep in blast)
  then show ?thesis
    by (simp add: final_segment_def)
qed

lemma remove_match_no_dot:
  assumes "CHR ''.'' \<notin> set (final_segment path)"
  shows "remove_match path = path"
proof (rule remove_match_none)
  fix p e assume "path = p @ CHR ''.'' # e"
  with assms final_segment_has_dot[of e p] show "e = [] \<or> \<not> list_all ext_char e"
    by auto
qed

lemma no_dot_no_extension:
  "CHR ''.'' \<notin> set path \<Longrightarrow> \<forall>p e. path = p @ CHR ''.'' # e \<longrightarrow> e = [] \<or> \<not> list_all ext_char e"
  by auto

lemma layout_index_eq:
  "layout_index name d = findIndex (\<lambda>field. field = name)
     (map member_name (filter isPropertyDeclaration (members d)))"
  by (simp add: layout_index_def class_layout_def)

lemma in_class_layout_iff:
  "name \<in> set (class_layout d) \<longleftrightarrow>
     \<not> findIndex (\<lambda>m. isPropertyDeclaration m \<and> member_name m = name) (members d) < 0"
  by (auto simp: class_layout_def findIndex_neg_iff)

text \<open>
  What \<^verbatim>\<open>getMemberIndex\<close> computes, for every class declaration. An index it returns is the
  position of the first property-kind member of that name in the whole member list, which is
  the position in the layout plus the number of members of other kinds that stand before.
  A name outside the layout gets no index: the call ends with the error that names the class
  and the field, or, for a class without a name, with the \<^verbatim>\<open>TypeError\<close> of reading the name.
  A name of the layout always gets an index.
\<close>

lemma getMemberIndex_index:
  "(getMemberIndex name d = Inr i \<longrightarrow>
      0 \<le> i \<and> nat i < length (members d) \<and>
      isPropertyDeclaration (members d ! nat i) \<and> member_name (members d ! nat i) = name \<and>
      (\<forall>j < nat i. \<not> (isPropertyDeclaration (members d ! j) \<and> member_name (members d ! j) = name)) \<and>
      i = layout_index name d +
          int (length (filter (\<lambda>m. \<not> isPropertyDeclaration m) (take (nat i) (members d))))) \<and>
   (name \<notin> set (class_layout d) \<longrightarrow>
      getMemberIndex name d =
        (case class_name d of
           None \<Rightarrow> Inl (TypeError ''Cannot read property text of undefined'')
         | Some c \<Rightarrow> Inl (Fatal (''Type '' @ quoted c @ '' has no field '' @ quoted name)))) \<and>
   (name \<in> set (class_layout d) \<longrightarrow> (\<exists>k. getMemberIndex name d = Inr k))"
proof (intro conjI impI)
  let ?P = "\<lambda>m. isPropertyDeclaration m \<and> member_name m = name"
  assume r: "getMemberIndex name d = Inr i"
  then have i: "i = findIndex ?P (members d)" and nn: "0 \<le> findIndex ?P (members d)"
    by (auto simp: getMemberIndex_def Let_def error_def split: if_splits option.splits)
  from findIndex_hit[OF nn] i
  show "0 \<le> i" "nat i < length (members d)"
    "isPropertyDeclaration (members d ! nat i)" "member_name (members d ! nat i) = name"
    "\<forall>j < nat i. \<not> (isPropertyDeclaration (members d ! j) \<and> member_name (members d ! j) = name)"
    using nn by simp_all
  from findIndex_layout[of isPropertyDeclaration member_name name "members d", OF nn] i
  show "i = layout_index name d +
          int (length (filter (\<lambda>m. \<not> isPropertyDeclaration m) (take (nat i) (members d))))"
    by (simp add: layout_index_eq)
next
  assume "name \<notin> set (class_layout d)"
  then show "getMemberIndex name d =
        (case class_name d of
           None \<Rightarrow> Inl (TypeError ''Cannot read property text of undefined'')
         | Some c \<Rightarrow> Inl (Fatal (''Type '' @ quoted c @ '' has no field '' @ quoted name)))"
    by (simp add: in_class_layout_iff getMemberIndex_def error_def split: option.splits)
next
  assume "name \<in> set (class_layout d)"
  then show "\<exists>k. getMemberIndex name d = Inr k"
    by (simp add: in_class_layout_iff getMemberIndex_def)
qed

subsection \<open>Auxiliary facts about the load rule and node dispatch\<close>

lemma address_of_value_type_iff:
  "address_of_value_type v \<longleftrightarrow>
     isPointerTy (value_type v) \<and>
     (case elementType (value_type v) of Some t \<Rightarrow> isValueType t | None \<Rightarrow> False)"
  by (cases "value_type v") (simp_all add: address_of_value_type_def)

lemma reference_not_value_address:
  "address_of_reference_type v \<Longrightarrow> \<not> address_of_value_type v"
  by (auto simp: address_of_reference_type_def address_of_value_type_def split: option.splits)

lemma position_in_main_other:
  "\<not> statement_kind (kind node) \<Longrightarrow> position_in_main node parentScope s = Inr s"
  by (simp add: position_in_main_def)

lemma emitNode_other:
  "\<not> statement_kind (kind node) \<Longrightarrow> emitNode E node parentScope s = dispatch E node parentScope s"
  by (simp add: emitNode_def position_in_main_other)

lemma not_emitted_not_statement:
  "\<not> emitted_kind k \<Longrightarrow> \<not> statement_kind k"
  by (cases k) (simp_all add: emitted_kind_def)

lemma passed_over_not_statement:
  "passed_over_kind k \<Longrightarrow> \<not> statement_kind k"
  by (cases k) (simp_all add: passed_over_kind_def)

lemma dispatch_passed_over:
  "passed_over_kind (kind node) \<Longrightarrow> dispatch E node parentScope s = Inr s"
  by (auto simp: passed_over_kind_def dispatch_def)

lemma dispatch_unhandled:
  "\<not> emitted_kind (kind node) \<Longrightarrow> \<not> passed_over_kind (kind node) \<Longrightarrow>
   dispatch E node parentScope s = Inr (warn (unhandled_node_notice node) s)"
  by (cases "kind node")
     (simp_all add: emitted_kind_def passed_over_kind_def dispatch_def unhandled_node_notice_def)

lemma emitNode_unhandled:
  "\<not> emitted_kind (kind node) \<Longrightarrow> \<not> passed_over_kind (kind node) \<Longrightarrow>
   emitNode E node parentScope s = Inr (warn (unhandled_node_notice node) s)"
  by (simp add: emitNode_other not_emitted_not_statement dispatch_unhandled)

lemma emitExpression_unhandled:
  "\<not> expression_kind (kind expression) \<Longrightarrow>
   emitExpression E expression s =
     Inl (Fatal (''Unhandled ts.Expression '' @ quoted (SyntaxKind_name (kind expression))))"
  by (cases "kind expression") (simp_all add: expression_kind_def emitExpression_def error_def)

subsection \<open>Auxiliary facts about the module and the entry function\<close>



lemma getFunction_Some:
  assumes "getFunction name m = Some f"
  shows "f < length (getFunctions m) \<and> function_name (getFunctions m ! f) = name"
proof -
  let ?i = "findIndex (\<lambda>f. function_name f = name) (getFunctions m)"
  from assms have nn: "0 \<le> ?i" and f: "f = nat ?i"
    by (auto simp: getFunction_def Let_def split: if_splits)
  from findIndex_hit[OF nn] f show ?thesis by simp
qed

lemma last_block_Some:
  "last_block f m = Some block \<Longrightarrow>
     f < length (getFunctions m) \<and> getBasicBlocks (getFunctions m ! f) \<noteq> [] \<and>
     block = (f, length (getBasicBlocks (getFunctions m ! f)) - 1)"
  by (auto simp: last_block_def Let_def split: if_splits)



lemma append_instruction_other:
  "g \<noteq> f \<Longrightarrow> getFunctions (append_instruction (f, b) v m) ! g = getFunctions m ! g"
  by (simp add: append_instruction_def)




subsection \<open>Auxiliary facts about the driver\<close>

lemma dispatch_statement:
  shows "kind node = Block \<Longrightarrow> dispatch E node parentScope = emitBlock E node"
    and "kind node = ExpressionStatement \<Longrightarrow>
           dispatch E node parentScope = emitExpressionStatement E node"
    and "kind node = IfStatement \<Longrightarrow>
           dispatch E node parentScope = emitIfStatement E node parentScope"
    and "kind node = ReturnStatement \<Longrightarrow>
           dispatch E node parentScope = emitReturnStatement E node"
    and "kind node = VariableStatement \<Longrightarrow>
           dispatch E node parentScope = emitVariableStatement E node parentScope"
  by (simp_all add: dispatch_def fun_eq_iff)















lemma emitLLVM_unfold:
  "emitLLVM verifyModule E program =
     (case forEach (emitSourceFile E) (getSourceFiles program)
        (new_generator E (BasicBlock_create ''entry'' 0
          (snd (createLLVMFunction (IntegerTy 32) [] ''main'' \<lparr>module_id = ''main'', getFunctions = []\<rparr>)))) of
        Inl e \<Rightarrow> Inl e
      | Inr s \<Rightarrow> finish_main verifyModule 0 s)"
  by (simp add: emitLLVM_def createLLVMFunction_def Function_create_def)

text \<open>The definitions that a run of the driver with the example emitters unfolds.\<close>

lemmas run_defs = emitLLVM_def createLLVMFunction_def Function_create_def BasicBlock_create_def
  new_generator_def emitSourceFile_def emitNode_def position_in_main_def getFunction_def
  last_block_def dispatch_def finish_main_def createRet_def insert_instruction_def
  append_instruction_def setInsertionPoint_def warn_def
  example_emitters_def example_statement_def example_return_def example_declaration_def
  example_verifyModule_def one_terminator_def


lemma emits_at_builderD:
  "emits_at_builder e \<Longrightarrow> builder s = Some (f, b) \<Longrightarrow> e s = Inr s' \<Longrightarrow>
   g \<noteq> f \<Longrightarrow> g < length (getFunctions (module s)) \<Longrightarrow>
   getFunctions (module s') ! g = getFunctions (module s) ! g"
  unfolding emits_at_builder_def by blast

lemma dispatch_statement_at_builder:
  assumes "statements_emit_at_builder E" "statement_kind (kind node)"
  shows "emits_at_builder (dispatch E node parentScope)"
proof -
  from assms(1) have e:
    "kind node = Block \<Longrightarrow> emits_at_builder (emitBlock E node)"
    "kind node = ExpressionStatement \<Longrightarrow> emits_at_builder (emitExpressionStatement E node)"
    "kind node = IfStatement \<Longrightarrow> emits_at_builder (emitIfStatement E node parentScope)"
    "kind node = ReturnStatement \<Longrightarrow> emits_at_builder (emitReturnStatement E node)"
    "kind node = VariableStatement \<Longrightarrow> emits_at_builder (emitVariableStatement E node parentScope)"
    unfolding statements_emit_at_builder_def by blast+
  from assms(2) show ?thesis
    by (cases "kind node") (simp_all add: e dispatch_statement)
qed

subsection \<open>The example emitters\<close>




lemma example_run: "emitLLVM example_verifyModule example_emitters (Program [unit_A, unit_B]) =
  Inr \<lparr>module_id = ''main'',
        getFunctions =
          [one_block_function ''main'' (IntegerTy 32)
             [OtherValue ''let a = 1;'' VoidTy, OtherValue ''let b = 2;'' VoidTy,
              ReturnInst (ConstantNull (IntegerTy 32))],
           one_block_function ''f'' VoidTy [ReturnInst (ConstantNull VoidTy)]]\<rparr>"
  by (simp add: run_defs unit_A_def unit_B_def one_block_function_def)

lemma insert_instruction_at_builder:
  "builder s = Some (f, b) \<Longrightarrow> g \<noteq> f \<Longrightarrow>
   getFunctions (module (insert_instruction v s)) ! g = getFunctions (module s) ! g"
  by (simp add: insert_instruction_def append_instruction_other)

lemma example_statements_at_builder: "statements_emit_at_builder example_emitters"
  by (auto simp: statements_emit_at_builder_def emits_at_builder_def example_emitters_def
      example_statement_def example_return_def createRet_def insert_instruction_at_builder)

subsection \<open>File names\<close>

text \<open>
  Claim C7. \<^verbatim>\<open>replaceExtension\<close> replaces the extension of a path. When the path ends in
  a final dot-suffix (a dot followed by one or more characters that are neither a dot nor a
  slash nor a backslash), that suffix is removed, whatever stands before it, and the supplied
  extension is appended. A path that does not end in such a suffix keeps all its characters
  and the extension is appended.
\<close>

theorem replaceExtension_final_dot_suffix: 
  "(e \<noteq> [] \<and> list_all ext_char e \<longrightarrow> replaceExtension (p @ CHR ''.'' # e) x = p @ x) \<and>
   ((\<forall>p e. path = p @ CHR ''.'' # e \<longrightarrow> e = [] \<or> \<not> list_all ext_char e) \<longrightarrow>
      replaceExtension path x = path @ x)"
  using remove_match_ext[of e p] remove_match_none[of path]
  by (auto simp: replaceExtension_def)


theorem replaceExtension_final_dot_suffix_witness:
  "''ts'' \<noteq> [] \<and> list_all ext_char ''ts'' \<and>
   replaceExtension ''src/main.ts'' ''.ll'' = ''src/main.ll'' \<and>
   \<not> (\<exists>p e. ''Makefile'' = p @ CHR ''.'' # e \<and> e \<noteq> [] \<and> list_all ext_char e) \<and>
   replaceExtension ''Makefile'' ''.ll'' = ''Makefile.ll''"
proof -
  have h1: "''ts'' \<noteq> [] \<and> list_all ext_char ''ts''"
    by (simp add: ext_char_def)
  have h2: "\<forall>p e. ''Makefile'' = p @ CHR ''.'' # e \<longrightarrow> e = [] \<or> \<not> list_all ext_char e"
    by (rule no_dot_no_extension) simp
  from h1 h2 replaceExtension_final_dot_suffix[of "''ts''" "''src/main''" "''.ll''" "''Makefile''"]
  show ?thesis by auto
qed

text \<open>
  Claim C10. \<^verbatim>\<open>replaceExtension\<close> never alters directory components: the result is a
  prefix of the path followed by the extension, and the part of the path that is removed
  contains neither a slash nor a backslash. For a path whose final segment (what follows the
  last separator) contains no dot, the result is the whole path with the extension appended.
\<close>

theorem replaceExtension_keeps_directories:
  "(\<exists>stem removed. path = stem @ removed \<and> replaceExtension path x = stem @ x \<and>
       CHR ''/'' \<notin> set removed \<and> CHR 0x5C \<notin> set removed) \<and>
   (CHR ''.'' \<notin> set (final_segment path) \<longrightarrow> replaceExtension path x = path @ x)"
proof
  obtain r where r: "path = remove_match path @ r" "r = [] \<or> matches_here r"
    using remove_match_prefix[of path] by blast
  then have "CHR ''/'' \<notin> set r \<and> CHR 0x5C \<notin> set r"
    using matches_here_no_separator[of r] by auto
  with r(1) show "\<exists>stem removed. path = stem @ removed \<and> replaceExtension path x = stem @ x \<and>
       CHR ''/'' \<notin> set removed \<and> CHR 0x5C \<notin> set removed"
    unfolding replaceExtension_def by blast
next
  show "CHR ''.'' \<notin> set (final_segment path) \<longrightarrow> replaceExtension path x = path @ x"
    using remove_match_no_dot[of path] by (simp add: replaceExtension_def)
qed

theorem replaceExtension_keeps_directories_witness:
  "CHR ''.'' \<notin> set (final_segment ''out.d/main'') \<and>
   replaceExtension ''out.d/main'' ''.ll'' = ''out.d/main.ll'' \<and>
   (\<exists>stem removed. ''out.d/main.ts'' = stem @ removed \<and>
      replaceExtension ''out.d/main.ts'' ''.ll'' = stem @ ''.ll'' \<and>
      CHR ''/'' \<notin> set removed \<and> CHR 0x5C \<notin> set removed)"
proof -
  have h: "CHR ''.'' \<notin> set (final_segment ''out.d/main'')"
    by (simp add: final_segment_def)
  have a: "replaceExtension ''out.d/main'' ''.ll'' = ''out.d/main.ll''"
    using h replaceExtension_keeps_directories[of "''out.d/main''" "''.ll''"] by simp
  have b: "\<exists>stem removed. ''out.d/main.ts'' = stem @ removed \<and>
      replaceExtension ''out.d/main.ts'' ''.ll'' = stem @ ''.ll'' \<and>
      CHR ''/'' \<notin> set removed \<and> CHR 0x5C \<notin> set removed"
    using replaceExtension_keeps_directories[of "''out.d/main.ts''" "''.ll''"] by (rule conjunct1)
  from h a b show ?thesis by (intro conjI)
qed

subsection \<open>Type classification\<close>

text \<open>
  Claim C6. The classifier \<^verbatim>\<open>isValueType\<close> holds of a type exactly when the type is
  \<^verbatim>\<open>double\<close>, the representation of all numeric values. Every other type is classified
  as reference-typed: the one-bit integer of a boolean, the character pointer of a string,
  a structure type, and every pointer type.
\<close>

theorem isValueType_iff_double:
  "(isValueType t \<longleftrightarrow> t = DoubleTy) \<and>
   \<not> isValueType (IntegerTy 1) \<and> \<not> isValueType (PointerTy (IntegerTy 8)) \<and>
   \<not> isValueType (StructTy name) \<and> \<not> isValueType (PointerTy t')"
  by (cases t) (simp_all add: isValueType_def)

subsection \<open>Class layout\<close>

text \<open>
  Claim C3. The layout of a class is the list of its property-kind members in declaration
  order, and the index of a field is its position in that list. \<^verbatim>\<open>getMemberIndex\<close> matches
  property-kind members only, but the index it returns is a position in the whole member
  list of the class. In the class with the members \<open>x\<close> (property), \<open>norm\<close> (method) and
  \<open>y\<close> (property) the layout is \<open>x, y\<close> and \<open>y\<close> is at position 1 there; the code gives
  \<open>y\<close> the index 2, which lies outside the layout of two fields.
\<close>

theorem getMemberIndex_counts_methods:
  "class_layout Point_class = [''x'', ''y''] \<and> layout_index ''y'' Point_class = 1 \<and>
   getMemberIndex ''y'' Point_class = Inr 2 \<and>
   \<not> 2 < int (length (class_layout Point_class))"
  by (simp add: Point_class_def class_layout_def layout_index_def getMemberIndex_def
      isPropertyDeclaration_def)

subsection \<open>The load-if-needed rule\<close>

text \<open>
  Claim C2, as stated, fails in its last part: an alloca is loaded whatever it allocates, so
  the address of a reference-typed location is loaded when it is an alloca. Here the alloca
  that holds a pointer to a structure (the storage of a variable that refers to an object)
  is loaded, and the load is inserted into the entry block.
\<close>

theorem alloca_of_reference_is_loaded:
  "address_of_reference_type (AllocaInst (PointerTy (StructTy ''Point''))) \<and>
   fst (createLoadIfAllocaOrPointerToValueType (AllocaInst (PointerTy (StructTy ''Point'')))
     generator_in_main) = LoadInst (AllocaInst (PointerTy (StructTy ''Point''))) \<and>
   main_body (module (snd (createLoadIfAllocaOrPointerToValueType
     (AllocaInst (PointerTy (StructTy ''Point''))) generator_in_main))) =
     [LoadInst (AllocaInst (PointerTy (StructTy ''Point'')))]"
  by (simp add: address_of_reference_type_def isValueType_def
      createLoadIfAllocaOrPointerToValueType_def createLoad_def insert_instruction_def
      generator_in_main_def new_generator_def createLLVMFunction_def Function_create_def
      BasicBlock_create_def setInsertionPoint_def append_instruction_def main_body_def)

text \<open>
  Claim C2, amended. The rule loads a value exactly when it is an alloca, whatever type it
  allocates, or a pointer whose element type is value-typed: then it returns the load, which
  the builder inserts. Otherwise it returns the value as it is and emits nothing. An address
  of a reference-typed location is returned unchanged when it is not an alloca.
\<close>

theorem load_if_alloca_or_pointer_to_value_type:
  "(isAllocaInst v \<or> address_of_value_type v \<longrightarrow>
      createLoadIfAllocaOrPointerToValueType v s = (LoadInst v, insert_instruction (LoadInst v) s)) \<and>
   (\<not> isAllocaInst v \<and> \<not> address_of_value_type v \<longrightarrow>
      createLoadIfAllocaOrPointerToValueType v s = (v, s)) \<and>
   (\<not> isAllocaInst v \<and> address_of_reference_type v \<longrightarrow>
      createLoadIfAllocaOrPointerToValueType v s = (v, s))"
  using reference_not_value_address[of v]
  by (auto simp: createLoadIfAllocaOrPointerToValueType_def createLoad_def
      address_of_value_type_iff)

theorem load_if_alloca_or_pointer_to_value_type_witness:
  "isAllocaInst (AllocaInst DoubleTy) \<and>
   createLoadIfAllocaOrPointerToValueType (AllocaInst DoubleTy) empty_generator =
     (LoadInst (AllocaInst DoubleTy), insert_instruction (LoadInst (AllocaInst DoubleTy)) empty_generator) \<and>
   address_of_value_type (OtherValue ''p.x'' (PointerTy DoubleTy)) \<and>
   fst (createLoadIfAllocaOrPointerToValueType (OtherValue ''p.x'' (PointerTy DoubleTy)) empty_generator) =
     LoadInst (OtherValue ''p.x'' (PointerTy DoubleTy)) \<and>
   \<not> isAllocaInst (ConstantNull DoubleTy) \<and> \<not> address_of_value_type (ConstantNull DoubleTy) \<and>
   createLoadIfAllocaOrPointerToValueType (ConstantNull DoubleTy) empty_generator =
     (ConstantNull DoubleTy, empty_generator) \<and>
   \<not> isAllocaInst (OtherValue ''p'' (PointerTy (StructTy ''Point''))) \<and>
   address_of_reference_type (OtherValue ''p'' (PointerTy (StructTy ''Point''))) \<and>
   createLoadIfAllocaOrPointerToValueType (OtherValue ''p'' (PointerTy (StructTy ''Point''))) empty_generator =
     (OtherValue ''p'' (PointerTy (StructTy ''Point'')), empty_generator)"
proof -
  have h1: "isAllocaInst (AllocaInst DoubleTy)"
    by simp
  have h2: "address_of_value_type (OtherValue ''p.x'' (PointerTy DoubleTy))"
    by (simp add: address_of_value_type_def isValueType_def)
  have h3: "\<not> isAllocaInst (ConstantNull DoubleTy) \<and> \<not> address_of_value_type (ConstantNull DoubleTy)"
    by (simp add: address_of_value_type_def)
  have h4: "\<not> isAllocaInst (OtherValue ''p'' (PointerTy (StructTy ''Point''))) \<and>
      address_of_reference_type (OtherValue ''p'' (PointerTy (StructTy ''Point'')))"
    by (simp add: address_of_reference_type_def isValueType_def)
  from h1 h2 h3 h4
    load_if_alloca_or_pointer_to_value_type[of "AllocaInst DoubleTy" empty_generator]
    load_if_alloca_or_pointer_to_value_type[of "OtherValue ''p.x'' (PointerTy DoubleTy)" empty_generator]
    load_if_alloca_or_pointer_to_value_type[of "ConstantNull DoubleTy" empty_generator]
    load_if_alloca_or_pointer_to_value_type[of "OtherValue ''p'' (PointerTy (StructTy ''Point''))" empty_generator]
  show ?thesis by simp
qed

subsection \<open>Node dispatch\<close>

text \<open>
  Claim C9. \<^verbatim>\<open>emitNode\<close> passes over a node of kind \<^verbatim>\<open>EndOfFileToken\<close> or
  \<^verbatim>\<open>InterfaceDeclaration\<close> silently: the generator is left as it was, with no code
  emitted and no notice raised. Any other kind without an emitter adds the notice
  \<^verbatim>\<open>Unhandled ts.Node\<close> and changes nothing else.
\<close>

theorem emitNode_passes_over_silently:
  "(passed_over_kind (kind node) \<longrightarrow> emitNode E node parentScope s = Inr s) \<and>
   (\<not> emitted_kind (kind node) \<and> \<not> passed_over_kind (kind node) \<longrightarrow>
      emitNode E node parentScope s = Inr (s\<lparr>notices := notices s @ [unhandled_node_notice node]\<rparr>))"
  using emitNode_unhandled[of node E parentScope s]
  by (simp add: emitNode_other passed_over_not_statement dispatch_passed_over warn_def)

theorem emitNode_passes_over_silently_witness:
  "passed_over_kind (kind (Node EndOfFileToken [] [])) \<and>
   emitNode example_emitters (Node EndOfFileToken [] []) GlobalScope generator_in_main = Inr generator_in_main \<and>
   passed_over_kind (kind (Node InterfaceDeclaration ''interface I {}'' [])) \<and>
   emitNode example_emitters (Node InterfaceDeclaration ''interface I {}'' []) GlobalScope generator_in_main =
     Inr generator_in_main \<and>
   \<not> emitted_kind (kind (Node (OtherKind ''WhileStatement'') ''while (c) {}'' [])) \<and>
   \<not> passed_over_kind (kind (Node (OtherKind ''WhileStatement'') ''while (c) {}'' [])) \<and>
   emitNode example_emitters (Node (OtherKind ''WhileStatement'') ''while (c) {}'' []) GlobalScope generator_in_main =
     Inr (generator_in_main\<lparr>notices := [''Unhandled ts.Node '' @ quoted ''WhileStatement'' @ '': while (c) {}'']\<rparr>)"
proof -
  have h1: "passed_over_kind (kind (Node EndOfFileToken [] []))"
    by (simp add: passed_over_kind_def)
  have h2: "passed_over_kind (kind (Node InterfaceDeclaration ''interface I {}'' []))"
    by (simp add: passed_over_kind_def)
  have h3: "\<not> emitted_kind (kind (Node (OtherKind ''WhileStatement'') ''while (c) {}'' [])) \<and>
      \<not> passed_over_kind (kind (Node (OtherKind ''WhileStatement'') ''while (c) {}'' []))"
    by (simp add: emitted_kind_def passed_over_kind_def)
  have n: "notices generator_in_main = []"
    by (simp add: generator_in_main_def new_generator_def createLLVMFunction_def
        Function_create_def setInsertionPoint_def)
  from h1 h2 h3
    emitNode_passes_over_silently[of "Node EndOfFileToken [] []" example_emitters GlobalScope generator_in_main]
    emitNode_passes_over_silently[of "Node InterfaceDeclaration ''interface I {}'' []" example_emitters
      GlobalScope generator_in_main]
    emitNode_passes_over_silently[of "Node (OtherKind ''WhileStatement'') ''while (c) {}'' []" example_emitters
      GlobalScope generator_in_main]
  show ?thesis by (simp add: n unhandled_node_notice_def)
qed

subsection \<open>The entry function\<close>




subsection \<open>Top-level statements and the insertion block\<close>

text \<open>
  Claim C8. When \<^verbatim>\<open>emitNode\<close> emits a node of a statement kind (\<^verbatim>\<open>Block\<close>,
  \<^verbatim>\<open>ExpressionStatement\<close>, \<^verbatim>\<open>IfStatement\<close>, \<^verbatim>\<open>ReturnStatement\<close>, \<^verbatim>\<open>VariableStatement\<close>)
  whose parent scope is the global scope, the emitter of the statement runs with the builder
  at the last block of the function named \<^verbatim>\<open>main\<close>, wherever the builder stood before. With
  statement emitters that change only the function that holds the insertion block, every
  function of the module other than \<^verbatim>\<open>main\<close> is then left as it was: a top-level statement
  adds nothing to a function emitted before.
\<close>

theorem top_level_statement_emitted_in_main:
  assumes k: "statement_kind (kind node)" and E: "statements_emit_at_builder E"
    and r: "emitNode E node GlobalScope s = Inr s'"
  shows "\<exists>main. getFunction ''main'' (module s) = Some main \<and>
           function_name (getFunctions (module s) ! main) = ''main'' \<and>
           getBasicBlocks (getFunctions (module s) ! main) \<noteq> [] \<and>
           dispatch E node GlobalScope
             (s\<lparr>builder := Some (main, length (getBasicBlocks (getFunctions (module s) ! main)) - 1)\<rparr>) =
             Inr s' \<and>
           (\<forall>g. g \<noteq> main \<and> g < length (getFunctions (module s)) \<longrightarrow>
              getFunctions (module s') ! g = getFunctions (module s) ! g)"
proof -
  from r k obtain main block where
    main: "getFunction ''main'' (module s) = Some main"
    and block: "last_block main (module s) = Some block"
    and d: "dispatch E node GlobalScope (setInsertionPoint block s) = Inr s'"
    by (auto simp: emitNode_def position_in_main_def split: option.splits sum.splits)
  from last_block_Some[OF block] have
    blocks: "getBasicBlocks (getFunctions (module s) ! main) \<noteq> []"
    and b: "block = (main, length (getBasicBlocks (getFunctions (module s) ! main)) - 1)"
    by simp_all
  let ?s1 = "s\<lparr>builder := Some (main, length (getBasicBlocks (getFunctions (module s) ! main)) - 1)\<rparr>"
  from d b have d1: "dispatch E node GlobalScope ?s1 = Inr s'"
    by (simp add: setInsertionPoint_def)
  have ab: "emits_at_builder (dispatch E node GlobalScope)"
    by (rule dispatch_statement_at_builder[OF E k])
  have b1: "builder ?s1 = Some (main, length (getBasicBlocks (getFunctions (module s) ! main)) - 1)"
    by simp
  have other: "getFunctions (module s') ! g = getFunctions (module s) ! g"
    if "g \<noteq> main" "g < length (getFunctions (module s))" for g
    using emits_at_builderD[OF ab b1 d1, of g] that by simp
  from main getFunction_Some[OF main] blocks d1 other show ?thesis
    by blast
qed

theorem top_level_statement_emitted_in_main_witness:
  "emitNode example_emitters (Node FunctionDeclaration ''f'' []) GlobalScope generator_in_main =
     Inr generator_in_f \<and>
   statement_kind (kind (Node VariableStatement ''let b = 2;'' [])) \<and>
   statements_emit_at_builder example_emitters \<and>
   builder generator_in_f = Some (1, 0) \<and>
   emitNode example_emitters (Node VariableStatement ''let b = 2;'' []) GlobalScope generator_in_f =
     Inr (generator_in_f\<lparr>module := \<lparr>module_id = ''main'',
        getFunctions = [one_block_function ''main'' (IntegerTy 32) [OtherValue ''let b = 2;'' VoidTy],
                        one_block_function ''f'' VoidTy [ReturnInst (ConstantNull VoidTy)]]\<rparr>,
        builder := Some (0, 0)\<rparr>) \<and>
   getFunction ''main'' (module generator_in_f) = Some 0 \<and>
   getFunctions (module (generator_in_f\<lparr>module := \<lparr>module_id = ''main'',
        getFunctions = [one_block_function ''main'' (IntegerTy 32) [OtherValue ''let b = 2;'' VoidTy],
                        one_block_function ''f'' VoidTy [ReturnInst (ConstantNull VoidTy)]]\<rparr>,
        builder := Some (0, 0)\<rparr>)) ! 1 = getFunctions (module generator_in_f) ! 1"
proof -
  let ?n = "Node VariableStatement ''let b = 2;'' []"
  let ?s' = "generator_in_f\<lparr>module := \<lparr>module_id = ''main'',
        getFunctions = [one_block_function ''main'' (IntegerTy 32) [OtherValue ''let b = 2;'' VoidTy],
                        one_block_function ''f'' VoidTy [ReturnInst (ConstantNull VoidTy)]]\<rparr>,
        builder := Some (0, 0)\<rparr>"
  have f: "emitNode example_emitters (Node FunctionDeclaration ''f'' []) GlobalScope generator_in_main =
      Inr generator_in_f"
    by (simp add: run_defs generator_in_main_def generator_in_f_def one_block_function_def)
  have k: "statement_kind (kind ?n)" by simp
  have r: "emitNode example_emitters ?n GlobalScope generator_in_f = Inr ?s'"
    by (simp add: run_defs generator_in_f_def one_block_function_def)
  have m: "getFunction ''main'' (module generator_in_f) = Some 0"
    by (simp add: getFunction_def generator_in_f_def one_block_function_def)
  from top_level_statement_emitted_in_main[OF k example_statements_at_builder r] m
  have "\<forall>g. g \<noteq> 0 \<and> g < length (getFunctions (module generator_in_f)) \<longrightarrow>
          getFunctions (module ?s') ! g = getFunctions (module generator_in_f) ! g"
    by auto
  then have "getFunctions (module ?s') ! 1 = getFunctions (module generator_in_f) ! 1"
    by (simp add: generator_in_f_def)
  with f k example_statements_at_builder r m show ?thesis
    by (simp add: generator_in_f_def)
qed

subsection \<open>Verification of the finished module\<close>

text \<open>
  Claim C5. A module that \<^verbatim>\<open>emitLLVM\<close> returns has passed the verifier: the verifier was
  run on the finished module, the one the driver builds when nothing is verified, and raised
  nothing. When the verifier rejects the finished module, \<^verbatim>\<open>emitLLVM\<close> ends with the
  verifier's error and returns no module. The verifier is the library's and is a parameter
  here.
\<close>

theorem emitLLVM_verifies_module:
  "(emitLLVM verifyModule E program = Inr m \<longrightarrow>
      verifyModule m = None \<and> emitLLVM (\<lambda>m. None) E program = Inr m) \<and>
   (emitLLVM (\<lambda>m. None) E program = Inr m \<and> verifyModule m = Some message \<longrightarrow>
      emitLLVM verifyModule E program = Inl (VerifierError message))"
  by (auto simp: emitLLVM_unfold finish_main_def Let_def split: sum.splits option.splits)

theorem emitLLVM_verifies_module_witness:
  "emitLLVM example_verifyModule example_emitters (Program [unit_A, unit_B]) =
     Inr \<lparr>module_id = ''main'',
        getFunctions =
          [one_block_function ''main'' (IntegerTy 32)
             [OtherValue ''let a = 1;'' VoidTy, OtherValue ''let b = 2;'' VoidTy,
              ReturnInst (ConstantNull (IntegerTy 32))],
           one_block_function ''f'' VoidTy [ReturnInst (ConstantNull VoidTy)]]\<rparr> \<and>
   example_verifyModule \<lparr>module_id = ''main'',
        getFunctions =
          [one_block_function ''main'' (IntegerTy 32)
             [OtherValue ''let a = 1;'' VoidTy, OtherValue ''let b = 2;'' VoidTy,
              ReturnInst (ConstantNull (IntegerTy 32))],
           one_block_function ''f'' VoidTy [ReturnInst (ConstantNull VoidTy)]]\<rparr> = None \<and>
   emitLLVM (\<lambda>m. None) example_emitters (Program [unit_with_return]) =
     Inr \<lparr>module_id = ''main'',
        getFunctions =
          [one_block_function ''main'' (IntegerTy 32)
             [ReturnInst (ConstantNull (IntegerTy 32)), ReturnInst (ConstantNull (IntegerTy 32))]]\<rparr> \<and>
   example_verifyModule \<lparr>module_id = ''main'',
        getFunctions =
          [one_block_function ''main'' (IntegerTy 32)
             [ReturnInst (ConstantNull (IntegerTy 32)), ReturnInst (ConstantNull (IntegerTy 32))]]\<rparr> =
     Some ''Verifying module failed'' \<and>
   emitLLVM example_verifyModule example_emitters (Program [unit_with_return]) =
     Inl (VerifierError ''Verifying module failed'')"
proof -
  let ?bad = "\<lparr>module_id = ''main'',
        getFunctions =
          [one_block_function ''main'' (IntegerTy 32)
             [ReturnInst (ConstantNull (IntegerTy 32)), ReturnInst (ConstantNull (IntegerTy 32))]]\<rparr>"
  have h1: "emitLLVM (\<lambda>m. None) example_emitters (Program [unit_with_return]) = Inr ?bad"
    by (simp add: run_defs unit_with_return_def one_block_function_def)
  have h2: "example_verifyModule ?bad = Some ''Verifying module failed''"
    by (simp add: example_verifyModule_def one_terminator_def one_block_function_def)
  have c1: "example_verifyModule \<lparr>module_id = ''main'',
        getFunctions =
          [one_block_function ''main'' (IntegerTy 32)
             [OtherValue ''let a = 1;'' VoidTy, OtherValue ''let b = 2;'' VoidTy,
              ReturnInst (ConstantNull (IntegerTy 32))],
           one_block_function ''f'' VoidTy [ReturnInst (ConstantNull VoidTy)]]\<rparr> = None"
    using emitLLVM_verifies_module[of example_verifyModule example_emitters "Program [unit_A, unit_B]"]
      example_run by blast
  have c2: "emitLLVM example_verifyModule example_emitters (Program [unit_with_return]) =
      Inl (VerifierError ''Verifying module failed'')"
    using emitLLVM_verifies_module[of example_verifyModule example_emitters
        "Program [unit_with_return]" ?bad "''Verifying module failed''"] h1 h2
    by blast
  from example_run c1 h1 h2 c2 show ?thesis
    by (intro conjI)
qed

subsection \<open>Unsupported constructs\<close>

text \<open>
  Claim C4, as stated, fails for expressions: \<^verbatim>\<open>emitExpression\<close> answers a kind it has no
  case for with \<^verbatim>\<open>error\<close>, which is fatal. Here the expression \<^verbatim>\<open>-x\<close>, a prefix unary
  expression, aborts emission.
\<close>

theorem unhandled_expression_is_fatal:
  "\<not> expression_kind (kind negation_expression) \<and>
   emitExpression example_emitters negation_expression generator_in_main =
     Inl (Fatal (''Unhandled ts.Expression '' @ quoted ''PrefixUnaryExpression''))"
  by (simp add: negation_expression_def expression_kind_def emitExpression_def error_def)

text \<open>
  Claim C4, amended. For a node that \<^verbatim>\<open>emitNode\<close> dispatches and whose kind it has no case
  for, emission raises only a notice: the module and the builder are left as they were, the
  node is skipped and the loop over the siblings goes on with the next one. For an
  expression whose kind \<^verbatim>\<open>emitExpression\<close> has no case for, emission raises a fatal error
  with the message \<^verbatim>\<open>Unhandled ts.Expression\<close> and the name of the kind.
\<close>

theorem unsupported_node_notice_unsupported_expression_fatal:
  "(\<not> emitted_kind (kind node) \<and> \<not> passed_over_kind (kind node) \<longrightarrow>
      emitNode E node parentScope s = Inr (warn (unhandled_node_notice node) s) \<and>
      module (warn (unhandled_node_notice node) s) = module s \<and>
      builder (warn (unhandled_node_notice node) s) = builder s \<and>
      forEach (\<lambda>n. emitNode E n parentScope) (node # rest) s =
        forEach (\<lambda>n. emitNode E n parentScope) rest (warn (unhandled_node_notice node) s)) \<and>
   (\<not> expression_kind (kind expression) \<longrightarrow>
      emitExpression E expression s =
        Inl (Fatal (''Unhandled ts.Expression '' @ quoted (SyntaxKind_name (kind expression)))))"
  using emitNode_unhandled[of node E parentScope s] emitExpression_unhandled[of expression E s]
  by (simp add: warn_def)

theorem unsupported_node_notice_unsupported_expression_fatal_witness:
  "\<not> emitted_kind (kind (Node (OtherKind ''WhileStatement'') ''while (c) {}'' [])) \<and>
   \<not> passed_over_kind (kind (Node (OtherKind ''WhileStatement'') ''while (c) {}'' [])) \<and>
   emitNode example_emitters (Node (OtherKind ''WhileStatement'') ''while (c) {}'' []) GlobalScope
     generator_in_main =
     Inr (generator_in_main\<lparr>notices :=
       [''Unhandled ts.Node '' @ quoted ''WhileStatement'' @ '': while (c) {}'']\<rparr>) \<and>
   forEach (\<lambda>n. emitNode example_emitters n GlobalScope)
     [Node (OtherKind ''WhileStatement'') ''while (c) {}'' [], Node VariableStatement ''let b = 2;'' []]
     generator_in_main =
   forEach (\<lambda>n. emitNode example_emitters n GlobalScope) [Node VariableStatement ''let b = 2;'' []]
     (generator_in_main\<lparr>notices :=
       [''Unhandled ts.Node '' @ quoted ''WhileStatement'' @ '': while (c) {}'']\<rparr>) \<and>
   emitLLVM example_verifyModule example_emitters (Program [unit_with_loop]) =
     Inr \<lparr>module_id = ''main'',
        getFunctions = [one_block_function ''main'' (IntegerTy 32)
           [OtherValue ''let b = 2;'' VoidTy, ReturnInst (ConstantNull (IntegerTy 32))]]\<rparr> \<and>
   \<not> expression_kind (kind negation_expression) \<and>
   emitExpression example_emitters negation_expression generator_in_main =
     Inl (Fatal (''Unhandled ts.Expression '' @ quoted ''PrefixUnaryExpression''))"
proof -
  let ?w = "Node (OtherKind ''WhileStatement'') ''while (c) {}'' []"
  have h1: "\<not> emitted_kind (kind ?w) \<and> \<not> passed_over_kind (kind ?w)"
    by (simp add: emitted_kind_def passed_over_kind_def)
  have h2: "\<not> expression_kind (kind negation_expression)"
    by (simp add: negation_expression_def expression_kind_def)
  have n: "warn (unhandled_node_notice ?w) generator_in_main =
      generator_in_main\<lparr>notices := [''Unhandled ts.Node '' @ quoted ''WhileStatement'' @ '': while (c) {}'']\<rparr>"
    by (simp add: warn_def unhandled_node_notice_def generator_in_main_def new_generator_def
        createLLVMFunction_def Function_create_def setInsertionPoint_def)
  have run: "emitLLVM example_verifyModule example_emitters (Program [unit_with_loop]) =
     Inr \<lparr>module_id = ''main'',
        getFunctions = [one_block_function ''main'' (IntegerTy 32)
           [OtherValue ''let b = 2;'' VoidTy, ReturnInst (ConstantNull (IntegerTy 32))]]\<rparr>"
    by (simp add: run_defs unit_with_loop_def one_block_function_def)
  have k: "SyntaxKind_name (kind negation_expression) = ''PrefixUnaryExpression''"
    by (simp add: negation_expression_def)
  note c = unsupported_node_notice_unsupported_expression_fatal[of ?w example_emitters GlobalScope generator_in_main
      "[Node VariableStatement ''let b = 2;'' []]" negation_expression]
  have c1: "emitNode example_emitters ?w GlobalScope generator_in_main =
      Inr (generator_in_main\<lparr>notices :=
        [''Unhandled ts.Node '' @ quoted ''WhileStatement'' @ '': while (c) {}'']\<rparr>)"
    using c h1 unfolding n by blast
  have c2: "forEach (\<lambda>n. emitNode example_emitters n GlobalScope)
      [?w, Node VariableStatement ''let b = 2;'' []] generator_in_main =
    forEach (\<lambda>n. emitNode example_emitters n GlobalScope) [Node VariableStatement ''let b = 2;'' []]
      (generator_in_main\<lparr>notices :=
        [''Unhandled ts.Node '' @ quoted ''WhileStatement'' @ '': while (c) {}'']\<rparr>)"
    using c h1 unfolding n by blast
  have c3: "emitExpression example_emitters negation_expression generator_in_main =
      Inl (Fatal (''Unhandled ts.Expression '' @ quoted ''PrefixUnaryExpression''))"
    using c h2 unfolding k by blast
  from h1 c1 c2 run h2 c3 show ?thesis
    by (intro conjI) simp_all
qed

end
